theory Spec2Isabelle
  imports Complex_Main "HOL-Library.Word" "HOL-Library.Monad_Syntax"
begin

section \<open>The application configuration table of TinyG2 (config_app.cpp)\<close>

text \<open>
  This theory embeds the application specific part of the TinyG2 configuration system:
  the table \<open>cfgArray\<close> with the index arithmetic derived from it, the unit conversion
  helpers \<open>set_flu\<close> and \<open>preprocess_float\<close>, the group prefix rule, the uber-group
  handlers and \<open>set_baud\<close>. Every definition follows the C++ text of
  \<^verbatim>\<open>src/TinyG2/config_app.cpp\<close>; the source lines are quoted next to the definitions.
\<close>

subsection \<open>Compile-time switches\<close>

text \<open>
  The table and several constants depend on preprocessor symbols. A build fixes them:
  \<open>MOTORS\<close> and \<open>D_IN_CHANNELS\<close> are numbers, the others are defined or not
  (\<^verbatim>\<open>#ifdef __ARM\<close>, \<^verbatim>\<open>#ifdef __AVR\<close>, \<^verbatim>\<open>#ifdef __TEXT_MODE\<close>,
  \<^verbatim>\<open>#ifdef __HELP_SCREENS\<close>, \<^verbatim>\<open>#ifdef __USER_DATA\<close>,
  \<^verbatim>\<open>#ifdef __DIAGNOSTIC_PARAMETERS\<close>).
\<close>

record build =
  MOTORS :: nat
  D_IN_CHANNELS :: nat
  ARM :: bool
  AVR :: bool
  TEXT_MODE :: bool
  HELP_SCREENS :: bool
  USER_DATA :: bool
  DIAGNOSTIC_PARAMETERS :: bool

subsection \<open>The rows of \<open>cfgArray\<close>\<close>

text \<open>
  Each row of \<open>cfgArray\<close> is listed with its first two columns, the group string and the
  token string, in table order. A definition named \<open>cfg_rows_m_n\<close> holds the rows that
  stand on source lines \<open>m\<close> to \<open>n\<close> outside any conditional; rows inside
  \<^verbatim>\<open>#if\<close> or \<^verbatim>\<open>#ifdef\<close> appear under the same condition on the build.
  Rows that the source has commented out are not part of the table.
  The table is the concatenation of four stretches: the single-valued rows, the forty
  rows that persist the status report (\<open>se00\<close> to \<open>se39\<close>), the group rows
  and the five uber-group rows.
\<close>

type_synonym cfgRow = "string \<times> string"

definition cfg_rows_118_208 :: "cfgRow list" where
  "cfg_rows_118_208 =
    [(''sys'', ''fb''), (''sys'', ''fbs''), (''sys'', ''fv''), (''sys'', ''hp''),
     (''sys'', ''hv''), (''sys'', ''id''), ('''', ''stat''), ('''', ''n''), ('''', ''line''),
     ('''', ''vel''), ('''', ''feed''), ('''', ''macs''), ('''', ''cycs''), ('''', ''mots''),
     ('''', ''hold''), ('''', ''unit''), ('''', ''coor''), ('''', ''momo''), ('''', ''plan''),
     ('''', ''path''), ('''', ''dist''), ('''', ''admo''), ('''', ''frmo''), ('''', ''tool''),
     ('''', ''g92e''), (''mpo'', ''mpox''), (''mpo'', ''mpoy''), (''mpo'', ''mpoz''),
     (''mpo'', ''mpoa''), (''mpo'', ''mpob''), (''mpo'', ''mpoc''), (''pos'', ''posx''),
     (''pos'', ''posy''), (''pos'', ''posz''), (''pos'', ''posa''), (''pos'', ''posb''),
     (''pos'', ''posc''), (''ofs'', ''ofsx''), (''ofs'', ''ofsy''), (''ofs'', ''ofsz''),
     (''ofs'', ''ofsa''), (''ofs'', ''ofsb''), (''ofs'', ''ofsc''), (''hom'', ''home''),
     (''hom'', ''homx''), (''hom'', ''homy''), (''hom'', ''homz''), (''hom'', ''homa''),
     (''hom'', ''homb''), (''hom'', ''homc''), (''prb'', ''prbe''), (''prb'', ''prbx''),
     (''prb'', ''prby''), (''prb'', ''prbz''), (''prb'', ''prba''), (''prb'', ''prbb''),
     (''prb'', ''prbc''), (''jog'', ''jogx''), (''jog'', ''jogy''), (''jog'', ''jogz''),
     (''jog'', ''joga''), (''1'', ''1ma''), (''1'', ''1sa''), (''1'', ''1tr''),
     (''1'', ''1mi''), (''1'', ''1po''), (''1'', ''1pm'')]"

definition cfg_rows_268_337 :: "cfgRow list" where
  "cfg_rows_268_337 =
    [(''x'', ''xam''), (''x'', ''xvm''), (''x'', ''xfr''), (''x'', ''xtn''), (''x'', ''xtm''),
     (''x'', ''xjm''), (''x'', ''xjh''), (''x'', ''xjd''), (''x'', ''xhi''), (''x'', ''xhd''),
     (''x'', ''xsv''), (''x'', ''xlv''), (''x'', ''xlb''), (''x'', ''xzb''), (''y'', ''yam''),
     (''y'', ''yvm''), (''y'', ''yfr''), (''y'', ''ytn''), (''y'', ''ytm''), (''y'', ''yjm''),
     (''y'', ''yjh''), (''y'', ''yjd''), (''y'', ''yhi''), (''y'', ''yhd''), (''y'', ''ysv''),
     (''y'', ''ylv''), (''y'', ''ylb''), (''y'', ''yzb''), (''z'', ''zam''), (''z'', ''zvm''),
     (''z'', ''zfr''), (''z'', ''ztn''), (''z'', ''ztm''), (''z'', ''zjm''), (''z'', ''zjh''),
     (''z'', ''zjd''), (''z'', ''zhi''), (''z'', ''zhd''), (''z'', ''zsv''), (''z'', ''zlv''),
     (''z'', ''zlb''), (''z'', ''zzb''), (''a'', ''aam''), (''a'', ''avm''), (''a'', ''afr''),
     (''a'', ''atn''), (''a'', ''atm''), (''a'', ''ajm''), (''a'', ''ajh''), (''a'', ''ajd''),
     (''a'', ''ara''), (''a'', ''ahi''), (''a'', ''ahd''), (''a'', ''asv''), (''a'', ''alv''),
     (''a'', ''alb''), (''a'', ''azb''), (''b'', ''bam''), (''b'', ''bvm''), (''b'', ''bfr''),
     (''b'', ''btn''), (''b'', ''btm''), (''b'', ''bjm''), (''b'', ''bjh''), (''b'', ''bra'')]"

definition cfg_rows_366_396 :: "cfgRow list" where
  "cfg_rows_366_396 =
    [(''di1'', ''di1mo''), (''di1'', ''di1ac''), (''di1'', ''di1fn''), (''di2'', ''di2mo''),
     (''di2'', ''di2ac''), (''di2'', ''di2fn''), (''di3'', ''di3mo''), (''di3'', ''di3ac''),
     (''di3'', ''di3fn''), (''di4'', ''di4mo''), (''di4'', ''di4ac''), (''di4'', ''di4fn''),
     (''di5'', ''di5mo''), (''di5'', ''di5ac''), (''di5'', ''di5fn''), (''di6'', ''di6mo''),
     (''di6'', ''di6ac''), (''di6'', ''di6fn''), (''di7'', ''di7mo''), (''di7'', ''di7ac''),
     (''di7'', ''di7fn''), (''di8'', ''di8mo''), (''di8'', ''di8ac''), (''di8'', ''di8fn'')]"

definition cfg_rows_417_529 :: "cfgRow list" where
  "cfg_rows_417_529 =
    [(''p1'', ''p1frq''), (''p1'', ''p1csl''), (''p1'', ''p1csh''), (''p1'', ''p1cpl''),
     (''p1'', ''p1cph''), (''p1'', ''p1wsl''), (''p1'', ''p1wsh''), (''p1'', ''p1wpl''),
     (''p1'', ''p1wph''), (''p1'', ''p1pof''), (''g54'', ''g54x''), (''g54'', ''g54y''),
     (''g54'', ''g54z''), (''g54'', ''g54a''), (''g54'', ''g54b''), (''g54'', ''g54c''),
     (''g55'', ''g55x''), (''g55'', ''g55y''), (''g55'', ''g55z''), (''g55'', ''g55a''),
     (''g55'', ''g55b''), (''g55'', ''g55c''), (''g56'', ''g56x''), (''g56'', ''g56y''),
     (''g56'', ''g56z''), (''g56'', ''g56a''), (''g56'', ''g56b''), (''g56'', ''g56c''),
     (''g57'', ''g57x''), (''g57'', ''g57y''), (''g57'', ''g57z''), (''g57'', ''g57a''),
     (''g57'', ''g57b''), (''g57'', ''g57c''), (''g58'', ''g58x''), (''g58'', ''g58y''),
     (''g58'', ''g58z''), (''g58'', ''g58a''), (''g58'', ''g58b''), (''g58'', ''g58c''),
     (''g59'', ''g59x''), (''g59'', ''g59y''), (''g59'', ''g59z''), (''g59'', ''g59a''),
     (''g59'', ''g59b''), (''g59'', ''g59c''), (''g92'', ''g92x''), (''g92'', ''g92y''),
     (''g92'', ''g92z''), (''g92'', ''g92a''), (''g92'', ''g92b''), (''g92'', ''g92c''),
     (''g28'', ''g28x''), (''g28'', ''g28y''), (''g28'', ''g28z''), (''g28'', ''g28a''),
     (''g28'', ''g28b''), (''g28'', ''g28c''), (''g30'', ''g30x''), (''g30'', ''g30y''),
     (''g30'', ''g30z''), (''g30'', ''g30a''), (''g30'', ''g30b''), (''g30'', ''g30c''),
     (''jid'', ''jida''), (''jid'', ''jidb''), (''jid'', ''jidc''), (''jid'', ''jidd''),
     (''sys'', ''ja''), (''sys'', ''ct''), (''sys'', ''sl''), (''sys'', ''lim''),
     (''sys'', ''saf''), (''sys'', ''mt''), (''sys'', ''m48e''), (''sys'', ''mfoe''),
     (''sys'', ''mfo''), (''sys'', ''mtoe''), (''sys'', ''mto''), (''sys'', ''spep''),
     (''sys'', ''spdp''), (''sys'', ''spph''), (''sys'', ''spdw''), (''sys'', ''ssoe''),
     (''sys'', ''sso''), ('''', ''spe''), ('''', ''spd''), ('''', ''sps''), (''sys'', ''cofp''),
     (''sys'', ''comp''), (''sys'', ''coph''), ('''', ''com''), ('''', ''cof'')]"

definition cfg_rows_552_578 :: "cfgRow list" where
  "cfg_rows_552_578 =
    [(''sys'', ''gpl''), (''sys'', ''gun''), (''sys'', ''gco''), (''sys'', ''gpa''),
     (''sys'', ''gdi''), ('''', ''gc''), ('''', ''sr''), ('''', ''qr''), ('''', ''qi''),
     ('''', ''qo''), ('''', ''er''), ('''', ''qf''), ('''', ''rx''), ('''', ''msg''),
     ('''', ''alarm''), ('''', ''panic''), ('''', ''shutd''), ('''', ''clear''),
     ('''', ''clr''), ('''', ''tick''), ('''', ''me''), ('''', ''md''), ('''', ''test''),
     ('''', ''defa'')]"

definition cfgArray_singles :: "build \<Rightarrow> cfgRow list" where
  "cfgArray_singles b =
    cfg_rows_118_208
    @ (if ARM b
       then [(''1'', ''1pl'')]
       else [])
    @ (if 2 \<le> MOTORS b
       then [(''2'', ''2ma''), (''2'', ''2sa''), (''2'', ''2tr''), (''2'', ''2mi''), (''2'', ''2po''),
             (''2'', ''2pm'')]
       else [])
    @ (if 2 \<le> MOTORS b \<and> ARM b
       then [(''2'', ''2pl'')]
       else [])
    @ (if 3 \<le> MOTORS b
       then [(''3'', ''3ma''), (''3'', ''3sa''), (''3'', ''3tr''), (''3'', ''3mi''), (''3'', ''3po''),
             (''3'', ''3pm'')]
       else [])
    @ (if 3 \<le> MOTORS b \<and> ARM b
       then [(''3'', ''3pl'')]
       else [])
    @ (if 4 \<le> MOTORS b
       then [(''4'', ''4ma''), (''4'', ''4sa''), (''4'', ''4tr''), (''4'', ''4mi''), (''4'', ''4po''),
             (''4'', ''4pm'')]
       else [])
    @ (if 4 \<le> MOTORS b \<and> ARM b
       then [(''4'', ''4pl'')]
       else [])
    @ (if 5 \<le> MOTORS b
       then [(''5'', ''5ma''), (''5'', ''5sa''), (''5'', ''5tr''), (''5'', ''5mi''), (''5'', ''5po''),
             (''5'', ''5pm'')]
       else [])
    @ (if 5 \<le> MOTORS b \<and> ARM b
       then [(''5'', ''5pl'')]
       else [])
    @ (if 6 \<le> MOTORS b
       then [(''6'', ''6ma''), (''6'', ''6sa''), (''6'', ''6tr''), (''6'', ''6mi''), (''6'', ''6po''),
             (''6'', ''6pm'')]
       else [])
    @ (if 6 \<le> MOTORS b \<and> ARM b
       then [(''6'', ''6pl'')]
       else [])
    @ cfg_rows_268_337
    @ (if ARM b
       then [(''b'', ''bhi''), (''b'', ''bhd''), (''b'', ''bsv''), (''b'', ''blv''), (''b'', ''blb''),
             (''b'', ''bzb'')]
       else [])
    @ [(''c'', ''cam''), (''c'', ''cvm''), (''c'', ''cfr''), (''c'', ''ctn''), (''c'', ''ctm''),
      (''c'', ''cjm''), (''c'', ''cjh''), (''c'', ''cra'')]
    @ (if ARM b
       then [(''c'', ''chi''), (''c'', ''chd''), (''c'', ''csv''), (''c'', ''clv''), (''c'', ''clb''),
             (''c'', ''czb'')]
       else [])
    @ cfg_rows_366_396
    @ (if 9 \<le> D_IN_CHANNELS b
       then [(''di9'', ''di9mo''), (''di9'', ''di9ac''), (''di9'', ''di9fn'')]
       else [])
    @ [(''in'', ''in1''), (''in'', ''in2''), (''in'', ''in3''), (''in'', ''in4''),
      (''in'', ''in5''), (''in'', ''in6''), (''in'', ''in7''), (''in'', ''in8'')]
    @ (if 9 \<le> D_IN_CHANNELS b
       then [(''in'', ''in9'')]
       else [])
    @ cfg_rows_417_529
    @ (if TEXT_MODE b
       then [(''sys'', ''tv'')]
       else [])
    @ [(''sys'', ''ej''), (''sys'', ''jv''), (''sys'', ''js''), (''sys'', ''qv''),
      (''sys'', ''sv''), (''sys'', ''si'')]
    @ (if AVR b
       then [(''sys'', ''ec''), (''sys'', ''ee''), (''sys'', ''ex''), (''sys'', ''baud'')]
       else [])
    @ cfg_rows_552_578
    @ (if ARM b
       then [('''', ''flash'')]
       else [])
    @ (if \<not> ARM b
       then [('''', ''boot'')]
       else [])
    @ (if HELP_SCREENS b
       then [('''', ''help''), ('''', ''h'')]
       else [])
    @ (if USER_DATA b
       then [(''uda'', ''uda0''), (''uda'', ''uda1''), (''uda'', ''uda2''), (''uda'', ''uda3''),
             (''udb'', ''udb0''), (''udb'', ''udb1''), (''udb'', ''udb2''), (''udb'', ''udb3''),
             (''udc'', ''udc0''), (''udc'', ''udc1''), (''udc'', ''udc2''), (''udc'', ''udc3''),
             (''udd'', ''udd0''), (''udd'', ''udd1''), (''udd'', ''udd2''), (''udd'', ''udd3'')]
       else [])
    @ (if DIAGNOSTIC_PARAMETERS b
       then [('''', ''clc''), ('''', ''_dam''), (''_te'', ''_tex''), (''_te'', ''_tey''),
             (''_te'', ''_tez''), (''_te'', ''_tea''), (''_te'', ''_teb''), (''_te'', ''_tec''),
             (''_tr'', ''_trx''), (''_tr'', ''_try''), (''_tr'', ''_trz''), (''_tr'', ''_tra''),
             (''_tr'', ''_trb''), (''_tr'', ''_trc'')]
       else [])
    @ (if DIAGNOSTIC_PARAMETERS b \<and> 1 \<le> MOTORS b
       then [(''_ts'', ''_ts1''), (''_ps'', ''_ps1''), (''_cs'', ''_cs1''), (''_es'', ''_es1''),
             (''_xs'', ''_xs1''), (''_fe'', ''_fe1'')]
       else [])
    @ (if DIAGNOSTIC_PARAMETERS b \<and> 2 \<le> MOTORS b
       then [(''_ts'', ''_ts2''), (''_ps'', ''_ps2''), (''_cs'', ''_cs2''), (''_es'', ''_es2''),
             (''_xs'', ''_xs2''), (''_fe'', ''_fe2'')]
       else [])
    @ (if DIAGNOSTIC_PARAMETERS b \<and> 3 \<le> MOTORS b
       then [(''_ts'', ''_ts3''), (''_ps'', ''_ps3''), (''_cs'', ''_cs3''), (''_es'', ''_es3''),
             (''_xs'', ''_xs3''), (''_fe'', ''_fe3'')]
       else [])
    @ (if DIAGNOSTIC_PARAMETERS b \<and> 4 \<le> MOTORS b
       then [(''_ts'', ''_ts4''), (''_ps'', ''_ps4''), (''_cs'', ''_cs4''), (''_es'', ''_es4''),
             (''_xs'', ''_xs4''), (''_fe'', ''_fe4'')]
       else [])
    @ (if DIAGNOSTIC_PARAMETERS b \<and> 5 \<le> MOTORS b
       then [(''_ts'', ''_ts5''), (''_ps'', ''_ps5''), (''_cs'', ''_cs5''), (''_es'', ''_es5''),
             (''_xs'', ''_xs6''), (''_fe'', ''_fe5'')]
       else [])
    @ (if DIAGNOSTIC_PARAMETERS b \<and> 6 \<le> MOTORS b
       then [(''_ts'', ''_ts6''), (''_ps'', ''_ps6''), (''_cs'', ''_cs6''), (''_es'', ''_es6''),
             (''_xs'', ''_xs5''), (''_fe'', ''_fe6'')]
       else [])"

definition cfg_rows_685_724 :: "cfgRow list" where
  "cfg_rows_685_724 =
    [('''', ''se00''), ('''', ''se01''), ('''', ''se02''), ('''', ''se03''), ('''', ''se04''),
     ('''', ''se05''), ('''', ''se06''), ('''', ''se07''), ('''', ''se08''), ('''', ''se09''),
     ('''', ''se10''), ('''', ''se11''), ('''', ''se12''), ('''', ''se13''), ('''', ''se14''),
     ('''', ''se15''), ('''', ''se16''), ('''', ''se17''), ('''', ''se18''), ('''', ''se19''),
     ('''', ''se20''), ('''', ''se21''), ('''', ''se22''), ('''', ''se23''), ('''', ''se24''),
     ('''', ''se25''), ('''', ''se26''), ('''', ''se27''), ('''', ''se28''), ('''', ''se29''),
     ('''', ''se30''), ('''', ''se31''), ('''', ''se32''), ('''', ''se33''), ('''', ''se34''),
     ('''', ''se35''), ('''', ''se36''), ('''', ''se37''), ('''', ''se38''), ('''', ''se39'')]"

definition cfgArray_status_report :: "cfgRow list" where
  "cfgArray_status_report =
    cfg_rows_685_724"

definition cfg_rows_750_785 :: "cfgRow list" where
  "cfg_rows_750_785 =
    [('''', ''x''), ('''', ''y''), ('''', ''z''), ('''', ''a''), ('''', ''b''), ('''', ''c''),
     ('''', ''in''), ('''', ''di1''), ('''', ''di2''), ('''', ''di3''), ('''', ''di4''),
     ('''', ''di5''), ('''', ''di6''), ('''', ''di7''), ('''', ''di8''), ('''', ''di9''),
     ('''', ''g54''), ('''', ''g55''), ('''', ''g56''), ('''', ''g57''), ('''', ''g58''),
     ('''', ''g59''), ('''', ''g92''), ('''', ''g28''), ('''', ''g30''), ('''', ''mpo''),
     ('''', ''pos''), ('''', ''ofs''), ('''', ''hom''), ('''', ''prb''), ('''', ''pwr''),
     ('''', ''jog''), ('''', ''jid'')]"

definition cfgArray_groups :: "build \<Rightarrow> cfgRow list" where
  "cfgArray_groups b =
    [('''', ''sys''), ('''', ''p1''), ('''', ''1''), ('''', ''2''), ('''', ''3''), ('''', ''4'')]
    @ (if 5 \<le> MOTORS b
       then [('''', ''5'')]
       else [])
    @ (if 6 \<le> MOTORS b
       then [('''', ''6'')]
       else [])
    @ cfg_rows_750_785
    @ (if USER_DATA b
       then [('''', ''uda''), ('''', ''udb''), ('''', ''udc''), ('''', ''udd'')]
       else [])
    @ (if DIAGNOSTIC_PARAMETERS b
       then [('''', ''_te''), ('''', ''_tr''), ('''', ''_ts''), ('''', ''_ps''), ('''', ''_cs''),
             ('''', ''_es''), ('''', ''_xs''), ('''', ''_fe'')]
       else [])"

definition cfgArray_uber_groups :: "cfgRow list" where
  "cfgArray_uber_groups =
    [('''', ''m''), ('''', ''q''), ('''', ''o''), ('''', ''di''), ('''', ''$'')]"

definition cfgArray :: "build \<Rightarrow> cfgRow list" where
  "cfgArray b =
     cfgArray_singles b @ cfgArray_status_report @ cfgArray_groups b @ cfgArray_uber_groups"

subsection \<open>Derived counts and boundaries\<close>

text \<open>
  \<^verbatim>\<open>#define NV_COUNT_UBER_GROUPS 5\<close>, \<^verbatim>\<open>#define FIXED_GROUPS 39\<close>, and the four
  optional group counts, each set by an \<^verbatim>\<open>#if\<close> on the build.
\<close>

definition NV_COUNT_UBER_GROUPS :: nat where
  "NV_COUNT_UBER_GROUPS = 5"

definition FIXED_GROUPS :: nat where
  "FIXED_GROUPS = 39"

definition MOTOR_GROUP_5 :: "build \<Rightarrow> nat" where
  "MOTOR_GROUP_5 b = (if 5 \<le> MOTORS b then 1 else 0)"

definition MOTOR_GROUP_6 :: "build \<Rightarrow> nat" where
  "MOTOR_GROUP_6 b = (if 6 \<le> MOTORS b then 1 else 0)"

definition USER_DATA_GROUPS :: "build \<Rightarrow> nat" where
  "USER_DATA_GROUPS b = (if USER_DATA b then 4 else 0)"

definition DIAGNOSTIC_GROUPS :: "build \<Rightarrow> nat" where
  "DIAGNOSTIC_GROUPS b = (if DIAGNOSTIC_PARAMETERS b then 8 else 0)"

definition NV_COUNT_GROUPS :: "build \<Rightarrow> nat" where
  "NV_COUNT_GROUPS b =
     FIXED_GROUPS + MOTOR_GROUP_5 b + MOTOR_GROUP_6 b + USER_DATA_GROUPS b + DIAGNOSTIC_GROUPS b"

text \<open>
  Modelled from the spec: \<open>NV_STATUS_REPORT_LEN\<close> is declared in report.h, which is not
  among the sources. The spec requires the length of the status-report persisted block to
  equal that constant, and the table's own note reads "Count must agree with
  NV_STATUS_REPORT_LEN in report.h ... Count is 40, since se00 counts as one".
\<close>

definition NV_STATUS_REPORT_LEN :: nat where
  "NV_STATUS_REPORT_LEN = 40"

text \<open>
  \<^verbatim>\<open>#define NV_INDEX_MAX (sizeof(cfgArray) / sizeof(cfgItem_t))\<close> is the number of rows.
  The three boundaries subtract counts from it. The C expressions are unsigned; the
  subtractions never go below zero (lemma \<open>NV_INDEX_no_wrap\<close> below), so natural numbers
  compute the same values.
\<close>

definition NV_INDEX_MAX :: "build \<Rightarrow> nat" where
  "NV_INDEX_MAX b = length (cfgArray b)"

definition NV_INDEX_END_SINGLES :: "build \<Rightarrow> nat" where
  "NV_INDEX_END_SINGLES b =
     NV_INDEX_MAX b - NV_COUNT_UBER_GROUPS - NV_COUNT_GROUPS b - NV_STATUS_REPORT_LEN"

definition NV_INDEX_START_GROUPS :: "build \<Rightarrow> nat" where
  "NV_INDEX_START_GROUPS b = NV_INDEX_MAX b - NV_COUNT_UBER_GROUPS - NV_COUNT_GROUPS b"

definition NV_INDEX_START_UBER_GROUPS :: "build \<Rightarrow> nat" where
  "NV_INDEX_START_UBER_GROUPS b = NV_INDEX_MAX b - NV_COUNT_UBER_GROUPS"

text \<open>
  The four index functions. \<open>index_t\<close> is an unsigned integer wide enough for the table
  (the table's notes ask for \<open>uint16_t\<close> once there are more than 255 rows); indices are
  natural numbers here. The C functions return \<open>uint8_t\<close> holding \<open>true\<close> or \<open>false\<close>.
\<close>

definition nv_index_max :: "build \<Rightarrow> nat" where
  "nv_index_max b = NV_INDEX_MAX b"

definition nv_index_is_single :: "build \<Rightarrow> nat \<Rightarrow> bool" where
  "nv_index_is_single b index = (if index \<le> NV_INDEX_END_SINGLES b then True else False)"

definition nv_index_is_group :: "build \<Rightarrow> nat \<Rightarrow> bool" where
  "nv_index_is_group b index =
     (if index \<ge> NV_INDEX_START_GROUPS b \<and> index < NV_INDEX_START_UBER_GROUPS b
      then True else False)"

definition nv_index_lt_groups :: "build \<Rightarrow> nat \<Rightarrow> bool" where
  "nv_index_lt_groups b index = (if index \<le> NV_INDEX_START_GROUPS b then True else False)"

text \<open>
  The third class of the partition has no function of its own in the source; an index
  marks an uber-group when it is at or beyond \<open>NV_INDEX_START_UBER_GROUPS\<close>.
\<close>

definition nv_index_is_uber_group :: "build \<Rightarrow> nat \<Rightarrow> bool" where
  "nv_index_is_uber_group b index = (index \<ge> NV_INDEX_START_UBER_GROUPS b)"

text \<open>How many of the three classifications hold of an index.\<close>

definition class_count :: "build \<Rightarrow> nat \<Rightarrow> nat" where
  "class_count b index =
     length (filter id
       [nv_index_is_single b index, nv_index_is_group b index, nv_index_is_uber_group b index])"

subsection \<open>Values, status codes and the nv object\<close>

text \<open>
  A C \<open>float\<close> is a finite number, an infinity or a NaN. Finite values are carried as
  reals; the rounding of an arithmetic result to the nearest \<open>float\<close> (which may
  overflow to an infinity) is a parameter \<open>float_round\<close> of the environment below.
\<close>

datatype c_float = Finite real | PlusInf | MinusInf | NaN

definition isnan :: "c_float \<Rightarrow> bool" where
  "isnan v = (v = NaN)"

definition isinf :: "c_float \<Rightarrow> bool" where
  "isinf v = (v = PlusInf \<or> v = MinusInf)"

text \<open>
  \<^verbatim>\<open>v *= c\<close> for a \<open>float\<close> variable \<open>v\<close> and a finite constant \<open>c\<close>: the product
  of two finite numbers is rounded, an infinity keeps or flips its sign with the sign of
  \<open>c\<close> (and gives NaN when \<open>c\<close> is zero), and NaN stays NaN.
\<close>

definition fmul :: "(real \<Rightarrow> c_float) \<Rightarrow> c_float \<Rightarrow> real \<Rightarrow> c_float" where
  "fmul rnd v c =
     (case v of
        Finite r \<Rightarrow> rnd (r * c)
      | PlusInf \<Rightarrow> (if 0 < c then PlusInf else if c < 0 then MinusInf else NaN)
      | MinusInf \<Rightarrow> (if 0 < c then MinusInf else if c < 0 then PlusInf else NaN)
      | NaN \<Rightarrow> NaN)"

text \<open>
  Modelled from the spec: \<open>MM_PER_INCH\<close> and \<open>INCHES_PER_MM\<close> are macros of a header
  that is not among the sources; they are the inch-to-millimeter constant (1.0 inch is
  written as 25.4) and the millimeter-to-inch constant.
\<close>

definition MM_PER_INCH :: real where
  "MM_PER_INCH = 25.4"

definition INCHES_PER_MM :: real where
  "INCHES_PER_MM = 1 / 25.4"

text \<open>
  \<^verbatim>\<open>(uint8_t)nv->value\<close>: a finite value strictly between \<open>-1\<close> and \<open>256\<close> is
  truncated towards zero. For every other value C leaves the conversion undefined; the
  byte the platform delivers is the parameter \<open>oor\<close>.
\<close>

definition trunc_toward_zero :: "real \<Rightarrow> int" where
  "trunc_toward_zero r = (if 0 \<le> r then \<lfloor>r\<rfloor> else \<lceil>r\<rceil>)"

definition uint8_of_float :: "(c_float \<Rightarrow> 8 word) \<Rightarrow> c_float \<Rightarrow> 8 word" where
  "uint8_of_float oor v =
     (case v of
        Finite r \<Rightarrow> (if - 1 < r \<and> r < 256 then word_of_int (trunc_toward_zero r) else oor v)
      | _ \<Rightarrow> oor v)"

text \<open>The status codes this file returns, and the value-type tags of an nv object.\<close>

datatype stat_t = STAT_OK | STAT_COMPLETE | STAT_NOOP | STAT_INPUT_VALUE_UNSUPPORTED

datatype valueType = TYPE_FLOAT | TYPE_INT | TYPE_STRING | TYPE_DATA | TYPE_PARENT

datatype cmUnitsMode = INCHES | MILLIMETERS

text \<open>
  \<open>nvObj_t\<close> (config.h): the fields this file reads or writes, \<^verbatim>\<open>nv->token\<close>,
  \<^verbatim>\<open>nv->index\<close>, \<^verbatim>\<open>nv->value\<close>, \<^verbatim>\<open>nv->valuetype\<close> and
  \<^verbatim>\<open>nv->precision\<close>.
\<close>

record nvObj =
  nv_token :: string
  nv_index :: nat
  nv_value :: c_float
  nv_valuetype :: valueType
  nv_precision :: int

text \<open>
  The columns of a table row that \<open>set_flu\<close> and \<open>preprocess_float\<close> read through
  \<^verbatim>\<open>GET_TABLE_BYTE(flags)\<close>, \<^verbatim>\<open>GET_TABLE_WORD(precision)\<close> and
  \<^verbatim>\<open>GET_TABLE_WORD(target)\<close>. The target is the address of a \<open>float\<close> cell.
\<close>

record cfgItem =
  cfg_flags :: "8 word"
  cfg_precision :: int
  cfg_target :: nat

subsection \<open>Calls into other modules\<close>

text \<open>
  Functions that live in other files are recorded as calls, in the order they are made,
  with the arguments they receive. A pointer to an nv object is passed together with the
  token the object holds at the time of the call. \<open>nv_print_list\<close> is always called
  with \<open>TEXT_MULTILINE_FORMATTED\<close> and \<open>JSON_RESPONSE_FORMAT\<close>; only its status
  argument is recorded. What the callees do to the nv list is outside this file and is
  not described by the model.
\<close>

datatype call =
    Nv_reset_nv_list
  | Nv_get_index string string
  | Nv_get_nvObj nat string
  | Nv_print_list stat_t
  | Get_grp nat string
  | Nv_add_conditional_message string

subsection \<open>Environment and machine state\<close>

text \<open>
  What the file takes from its headers and from the platform: the table columns behind
  the \<open>GET_TABLE\<close> macros (indexed by \<^verbatim>\<open>nv->index\<close>), the flag bit \<open>F_CONVERT\<close>,
  \<open>NV_MAX_OBJECTS\<close>, the address \<open>nv_body\<close>, the result of \<open>nv_get_index\<close>,
  and the two platform behaviours of floats described above.
\<close>

record env =
  GET_TABLE :: "nat \<Rightarrow> cfgItem"
  F_CONVERT :: "8 word"
  NV_MAX_OBJECTS :: nat
  nv_body :: nat
  nv_get_index :: "string \<Rightarrow> string \<Rightarrow> nat"
  float_round :: "real \<Rightarrow> c_float"
  cast_out_of_range :: "c_float \<Rightarrow> 8 word"

text \<open>
  The mutable state: the nv objects by address, the \<open>float\<close> cells that table targets
  point to, the units mode that \<^verbatim>\<open>cm_get_units_mode(MODEL)\<close> returns, the two
  \<open>xio\<close> fields of the baud rate, the global \<open>message\<close> buffer and the calls made so
  far.
\<close>

record machine =
  nv_list :: "nat \<Rightarrow> nvObj"
  storage :: "nat \<Rightarrow> c_float"
  units_mode :: cmUnitsMode
  xio_usb_baud_rate :: "8 word"
  xio_usb_baud_flag :: bool
  message :: string
  calls :: "call list"

definition add_call :: "call \<Rightarrow> machine \<Rightarrow> machine" where
  "add_call c s = s\<lparr>calls := calls s @ [c]\<rparr>"

definition set_token :: "nat \<Rightarrow> string \<Rightarrow> machine \<Rightarrow> machine" where
  "set_token nv t s = s\<lparr>nv_list := (nv_list s)(nv := (nv_list s nv)\<lparr>nv_token := t\<rparr>)\<rparr>"

subsection \<open>Unit conversion: \<open>set_flu\<close> and \<open>preprocess_float\<close>\<close>

text \<open>
  \<^verbatim>\<open>
  stat_t set_flu(nvObj_t *nv)
  {
      if (cm_get_units_mode(MODEL) == INCHES) {
          nv->value *= MM_PER_INCH;
      }
      *((float *)GET_TABLE_WORD(target)) = nv->value;
      nv->precision = GET_TABLE_WORD(precision);
      nv->valuetype = TYPE_FLOAT;
      return(STAT_OK);
  }
  \<close>
\<close>

definition set_flu :: "env \<Rightarrow> nat \<Rightarrow> machine \<Rightarrow> stat_t \<times> machine" where
  "set_flu e nv s =
     (let obj = nv_list s nv;
          v = (if units_mode s = INCHES
               then fmul (float_round e) (nv_value obj) MM_PER_INCH
               else nv_value obj);
          item = GET_TABLE e (nv_index obj);
          s1 = s\<lparr>storage := (storage s)(cfg_target item := v)\<rparr>;
          obj1 = obj\<lparr>nv_value := v, nv_valuetype := TYPE_FLOAT, nv_precision := cfg_precision item\<rparr>
      in (STAT_OK, s1\<lparr>nv_list := (nv_list s1)(nv := obj1)\<rparr>))"

text \<open>
  \<^verbatim>\<open>
  void preprocess_float(nvObj_t *nv)
  {
      if (isnan((double)nv->value) || isinf((double)nv->value)) return;
      if (GET_TABLE_BYTE(flags) & F_CONVERT) {
          if (cm_get_units_mode(MODEL) == INCHES) {
              nv->value *= INCHES_PER_MM;
          }
      }
  }
  \<close>
\<close>

definition preprocess_float :: "env \<Rightarrow> nat \<Rightarrow> machine \<Rightarrow> machine" where
  "preprocess_float e nv s =
     (let obj = nv_list s nv in
      if isnan (nv_value obj) \<or> isinf (nv_value obj) then s
      else if and (cfg_flags (GET_TABLE e (nv_index obj))) (F_CONVERT e) \<noteq> 0
      then (if units_mode s = INCHES
            then s\<lparr>nv_list := (nv_list s)
                     (nv := obj\<lparr>nv_value := fmul (float_round e) (nv_value obj) INCHES_PER_MM\<rparr>)\<rparr>
            else s)
      else s)"

subsection \<open>The group prefix rule\<close>

text \<open>
  \<^verbatim>\<open>
  uint8_t nv_group_is_prefixed(char *group)
  {
      if (strcmp("sr", group) == 0) return (false);
      if (strcmp("sys", group) == 0) return (false);
      return (true);
  }
  \<close>
\<close>

definition nv_group_is_prefixed :: "string \<Rightarrow> bool" where
  "nv_group_is_prefixed grp =
     (if ''sr'' = grp then False else if ''sys'' = grp then False else True)"

subsection \<open>Uber-group handlers\<close>

text \<open>
  Modelled from the spec: \<open>TOKEN_LEN\<close> is a macro of config.h; the spec gives six
  characters for a token, as the table's notes do.
\<close>

definition TOKEN_LEN :: nat where
  "TOKEN_LEN = 6"

text \<open>
  One pass of the loop body of \<open>_do_group_list\<close> for the list element \<open>t\<close>:
  \<^verbatim>\<open>
  nv_reset_nv_list();
  nv = nv_body;
  strncpy(nv->token, list[i], TOKEN_LEN);
  nv->index = nv_get_index((const char *)"", nv->token);
  nv_get_nvObj(nv);
  nv_print_list(STAT_OK, TEXT_MULTILINE_FORMATTED, JSON_RESPONSE_FORMAT);
  \<close>
\<close>

definition group_list_step :: "env \<Rightarrow> string \<Rightarrow> machine \<Rightarrow> machine" where
  "group_list_step e t s =
     (let s1 = add_call Nv_reset_nv_list s;
          nv = nv_body e;
          s2 = set_token nv (take TOKEN_LEN t) s1;
          tok = nv_token (nv_list s2 nv);
          s3 = add_call (Nv_get_index [] tok) s2;
          s4 = s3\<lparr>nv_list := (nv_list s3)(nv := (nv_list s3 nv)\<lparr>nv_index := nv_get_index e [] tok\<rparr>)\<rparr>;
          s5 = add_call (Nv_get_nvObj nv (nv_token (nv_list s4 nv))) s4
      in add_call (Nv_print_list STAT_OK) s5)"

text \<open>
  \<^verbatim>\<open>
  static stat_t _do_group_list(nvObj_t *nv, char list[][TOKEN_LEN+1])
  {
      for (uint8_t i=0; i < NV_MAX_OBJECTS; i++) {
          if (list[i][0] == NUL) {
              return (STAT_COMPLETE);
          }
          ... loop body ...
      }
      return (STAT_COMPLETE);
  }
  \<close>
  The list is the array the caller declares. The counter is a \<open>uint8_t\<close>: an 8-bit
  word here, compared with \<open>NV_MAX_OBJECTS\<close> by its numeric value, and \<open>i++\<close>
  wraps from 255 to 0. A call that returns no status has the value \<open>None\<close>. That is
  the case when the loop reads an element beyond the end of the array, which is
  undefined in C, and when the loop never ends: with \<open>NV_MAX_OBJECTS\<close> at 256 or
  more and no empty string among the first 256 elements the counter wraps before it
  can reach the bound. Isabelle names cannot begin with an underscore, so
  \<open>_do_group_list\<close>, \<open>_do_motors\<close>, \<open>_do_axes\<close>, \<open>_do_offsets\<close>,
  \<open>_do_inputs\<close> and \<open>_do_all\<close> drop it.
\<close>

partial_function (option) group_list_loop ::
  "env \<Rightarrow> string list \<Rightarrow> 8 word \<Rightarrow> machine \<Rightarrow> (stat_t \<times> machine) option" where
  "group_list_loop e list i s =
     (if unat i < NV_MAX_OBJECTS e then
        (if length list \<le> unat i then None
         else if list ! unat i = [] then Some (STAT_COMPLETE, s)
         else group_list_loop e list (i + 1) (group_list_step e (list ! unat i) s))
      else Some (STAT_COMPLETE, s))"

definition do_group_list ::
  "env \<Rightarrow> nat \<Rightarrow> string list \<Rightarrow> machine \<Rightarrow> (stat_t \<times> machine) option" where
  "do_group_list e nv list s = group_list_loop e list 0 s"

text \<open>
  \<open>_do_motors\<close> declares its list under \<^verbatim>\<open>#if MOTORS == 2\<close> to
  \<^verbatim>\<open>#if MOTORS == 6\<close>. For any other motor count no list is declared and the file
  does not compile; such a build has no handler to return a status: \<open>None\<close>.
\<close>

definition motors_list :: "build \<Rightarrow> string list option" where
  "motors_list b =
     (if MOTORS b = 2 then Some [''1'', ''2'', '''']
      else if MOTORS b = 3 then Some [''1'', ''2'', ''3'', '''']
      else if MOTORS b = 4 then Some [''1'', ''2'', ''3'', ''4'', '''']
      else if MOTORS b = 5 then Some [''1'', ''2'', ''3'', ''4'', ''5'', '''']
      else if MOTORS b = 6 then Some [''1'', ''2'', ''3'', ''4'', ''5'', ''6'', '''']
      else None)"

definition do_motors :: "build \<Rightarrow> env \<Rightarrow> nat \<Rightarrow> machine \<Rightarrow> (stat_t \<times> machine) option" where
  "do_motors b e nv s =
     (case motors_list b of None \<Rightarrow> None | Some list \<Rightarrow> do_group_list e nv list s)"

definition axes_list :: "string list" where
  "axes_list = [''x'', ''y'', ''z'', ''a'', ''b'', ''c'', '''']"

definition do_axes :: "env \<Rightarrow> nat \<Rightarrow> machine \<Rightarrow> (stat_t \<times> machine) option" where
  "do_axes e nv s = do_group_list e nv axes_list s"

definition offsets_list :: "string list" where
  "offsets_list =
     [''g54'', ''g55'', ''g56'', ''g57'', ''g58'', ''g59'', ''g92'', ''g28'', ''g30'', '''']"

definition do_offsets :: "env \<Rightarrow> nat \<Rightarrow> machine \<Rightarrow> (stat_t \<times> machine) option" where
  "do_offsets e nv s = do_group_list e nv offsets_list s"

definition inputs_list :: "build \<Rightarrow> string list" where
  "inputs_list b =
     (if D_IN_CHANNELS b < 9
      then [''di1'', ''di2'', ''di3'', ''di4'', ''di5'', ''di6'', ''di7'', ''di8'', '''']
      else [''di1'', ''di2'', ''di3'', ''di4'', ''di5'', ''di6'', ''di7'', ''di8'', ''di9'', ''''])"

definition do_inputs :: "build \<Rightarrow> env \<Rightarrow> nat \<Rightarrow> machine \<Rightarrow> (stat_t \<times> machine) option" where
  "do_inputs b e nv s = do_group_list e nv (inputs_list b) s"

text \<open>
  \<^verbatim>\<open>
  static stat_t _do_all(nvObj_t *nv)
  {
      strcpy(nv->token,"sys");
      get_grp(nv);
      nv_print_list(STAT_OK, TEXT_MULTILINE_FORMATTED, JSON_RESPONSE_FORMAT);

      _do_motors(nv);
      _do_axes(nv);

      strcpy(nv->token,"p1");
      get_grp(nv);
      nv_print_list(STAT_OK, TEXT_MULTILINE_FORMATTED, JSON_RESPONSE_FORMAT);

      return (_do_offsets(nv));
  }
  \<close>
  The statuses that \<open>get_grp\<close>, \<open>_do_motors\<close> and \<open>_do_axes\<close> return are dropped,
  as in the source.
\<close>

definition print_group :: "nat \<Rightarrow> string \<Rightarrow> machine \<Rightarrow> machine" where
  "print_group nv t s =
     (let s1 = set_token nv t s;
          s2 = add_call (Get_grp nv (nv_token (nv_list s1 nv))) s1
      in add_call (Nv_print_list STAT_OK) s2)"

definition do_all :: "build \<Rightarrow> env \<Rightarrow> nat \<Rightarrow> machine \<Rightarrow> (stat_t \<times> machine) option" where
  "do_all b e nv s =
     do {
       let s1 = print_group nv ''sys'' s;
       (st2, s2) \<leftarrow> do_motors b e nv s1;
       (st3, s3) \<leftarrow> do_axes e nv s2;
       let s4 = print_group nv ''p1'' s3;
       do_offsets e nv s4
     }"

subsection \<open>\<open>set_baud\<close> (AVR only)\<close>

text \<open>
  \<^verbatim>\<open>
  static const char *const msg_baud[] PROGMEM =
    { msg_baud0, msg_baud1, msg_baud2, msg_baud3, msg_baud4, msg_baud5, msg_baud6 };

  static stat_t set_baud(nvObj_t *nv)
  {
      uint8_t baud = (uint8_t)nv->value;
      if ((baud < 1) || (baud > 6)) {
          nv_add_conditional_message((const char *)"*** WARNING *** Unsupported baud rate specified");
          return (STAT_INPUT_VALUE_UNSUPPORTED);
      }
      xio.usb_baud_rate = baud;
      xio.usb_baud_flag = true;
      message[NV_MESSAGE_LEN];
      sprintf_P(message, PSTR("*** NOTICE *** Resetting baud rate to %s"),GET_TEXT_ITEM(msg_baud, baud));
      nv_add_conditional_message(message);
      return (STAT_OK);
  }
  \<close>
\<close>

definition msg_baud :: "string list" where
  "msg_baud = [''0'', ''9600'', ''19200'', ''38400'', ''57600'', ''115200'', ''230400'']"

definition set_baud :: "env \<Rightarrow> nat \<Rightarrow> machine \<Rightarrow> stat_t \<times> machine" where
  "set_baud e nv s =
     (let baud = uint8_of_float (cast_out_of_range e) (nv_value (nv_list s nv)) in
      if baud < 1 \<or> baud > 6
      then (STAT_INPUT_VALUE_UNSUPPORTED,
            add_call (Nv_add_conditional_message
                        ''*** WARNING *** Unsupported baud rate specified'') s)
      else
        (let s1 = s\<lparr>xio_usb_baud_rate := baud\<rparr>;
             s2 = s1\<lparr>xio_usb_baud_flag := True\<rparr>;
             s3 = s2\<lparr>message := ''*** NOTICE *** Resetting baud rate to '' @ msg_baud ! unat baud\<rparr>
         in (STAT_OK, add_call (Nv_add_conditional_message (message s3)) s3)))"

subsection \<open>An example build and the rows a motor adds\<close>

text \<open>
  A build for the ARM board with four motors and nine digital inputs, text mode and
  help screens, without user data and diagnostic parameters.
\<close>

definition g2_build :: build where
  "g2_build = \<lparr>MOTORS = 4, D_IN_CHANNELS = 9, ARM = True, AVR = False, TEXT_MODE = True,
     HELP_SCREENS = True, USER_DATA = False, DIAGNOSTIC_PARAMETERS = False\<rparr>"


subsection \<open>Describing what a handler does\<close>

text \<open>
  The calls of one pass of the list loop for the token \<open>t\<close>, the calls of a group that
  \<open>_do_all\<close> prints directly through the object \<open>nv\<close>, and the state after the loop body
  has run for each token of a list in turn.
\<close>

definition listed_calls :: "env \<Rightarrow> string \<Rightarrow> call list" where
  "listed_calls e t =
     [Nv_reset_nv_list, Nv_get_index [] (take TOKEN_LEN t),
      Nv_get_nvObj (nv_body e) (take TOKEN_LEN t), Nv_print_list STAT_OK]"

definition direct_calls :: "nat \<Rightarrow> string \<Rightarrow> call list" where
  "direct_calls nv t = [Get_grp nv t, Nv_print_list STAT_OK]"

definition run_steps :: "env \<Rightarrow> string list \<Rightarrow> machine \<Rightarrow> machine" where
  "run_steps e ts s = foldl (\<lambda>s t. group_list_step e t s) s ts"

text \<open>
  The groups a call sequence fetches for printing, in order: the token handed to
  \<open>get_grp\<close> or to \<open>nv_get_nvObj\<close>.
\<close>

fun fetched_token :: "call \<Rightarrow> string list" where
  "fetched_token (Get_grp p t) = [t]"
| "fetched_token (Nv_get_nvObj p t) = [t]"
| "fetched_token c = []"

definition fetched :: "call list \<Rightarrow> string list" where
  "fetched cs = concat (map fetched_token cs)"

text \<open>
  An example environment and an example state: every table row asks for unit
  conversion and has precision 3, the nv list may hold 29 objects, rounding is exact; the
  nv objects hold the value 1.0 and the machine is in inches mode.
\<close>

definition example_env :: env where
  "example_env =
     \<lparr>GET_TABLE = (\<lambda>i. \<lparr>cfg_flags = 8, cfg_precision = 3, cfg_target = i\<rparr>),
      F_CONVERT = 8, NV_MAX_OBJECTS = 29, nv_body = 1, nv_get_index = (\<lambda>g t. 0),
      float_round = Finite, cast_out_of_range = (\<lambda>v. 0)\<rparr>"

definition example_machine :: machine where
  "example_machine =
     \<lparr>nv_list = (\<lambda>p. \<lparr>nv_token = [], nv_index = 7, nv_value = Finite 1,
                        nv_valuetype = TYPE_INT, nv_precision = 0\<rparr>),
      storage = (\<lambda>a. Finite 0), units_mode = INCHES, xio_usb_baud_rate = 5,
      xio_usb_baud_flag = False, message = [], calls = []\<rparr>"

definition with_value :: "c_float \<Rightarrow> machine \<Rightarrow> machine" where
  "with_value v s = s\<lparr>nv_list := (\<lambda>p. (nv_list s p)\<lparr>nv_value := v\<rparr>)\<rparr>"

text \<open>The status a handler returns and the calls recorded when it returns.\<close>

definition status_of :: "(stat_t \<times> machine) option \<Rightarrow> stat_t option" where
  "status_of r = map_option fst r"

definition calls_of :: "(stat_t \<times> machine) option \<Rightarrow> call list option" where
  "calls_of r = map_option (calls \<circ> snd) r"

section \<open>The table and its recorded counts\<close>

lemma length_if_rows:
  "length (if c then xs else []) = (if c then length xs else 0)"
  by simp

lemma length_cfg_rows_118_208: "length cfg_rows_118_208 = 67"
  by (simp add: cfg_rows_118_208_def)

lemma length_cfg_rows_268_337: "length cfg_rows_268_337 = 65"
  by (simp add: cfg_rows_268_337_def)

lemma length_cfg_rows_366_396: "length cfg_rows_366_396 = 24"
  by (simp add: cfg_rows_366_396_def)

lemma length_cfg_rows_417_529: "length cfg_rows_417_529 = 93"
  by (simp add: cfg_rows_417_529_def)

lemma length_cfg_rows_552_578: "length cfg_rows_552_578 = 24"
  by (simp add: cfg_rows_552_578_def)

lemma length_cfg_rows_685_724: "length cfg_rows_685_724 = 40"
  by (simp add: cfg_rows_685_724_def)

lemma length_cfg_rows_750_785: "length cfg_rows_750_785 = 33"
  by (simp add: cfg_rows_750_785_def)

lemmas length_cfg_rows =
  length_cfg_rows_118_208 length_cfg_rows_268_337 length_cfg_rows_366_396
  length_cfg_rows_417_529 length_cfg_rows_552_578 length_cfg_rows_685_724
  length_cfg_rows_750_785

text \<open>The number of single-valued rows, stretch by stretch in table order.\<close>

lemma length_cfgArray_singles:
  "length (cfgArray_singles b) =
       67
       + (if ARM b then 1 else 0)
       + (if 2 \<le> MOTORS b then 6 else 0)
       + (if 2 \<le> MOTORS b \<and> ARM b then 1 else 0)
       + (if 3 \<le> MOTORS b then 6 else 0)
       + (if 3 \<le> MOTORS b \<and> ARM b then 1 else 0)
       + (if 4 \<le> MOTORS b then 6 else 0)
       + (if 4 \<le> MOTORS b \<and> ARM b then 1 else 0)
       + (if 5 \<le> MOTORS b then 6 else 0)
       + (if 5 \<le> MOTORS b \<and> ARM b then 1 else 0)
       + (if 6 \<le> MOTORS b then 6 else 0)
       + (if 6 \<le> MOTORS b \<and> ARM b then 1 else 0)
       + 65
       + (if ARM b then 6 else 0)
       + 8
       + (if ARM b then 6 else 0)
       + 24
       + (if 9 \<le> D_IN_CHANNELS b then 3 else 0)
       + 8
       + (if 9 \<le> D_IN_CHANNELS b then 1 else 0)
       + 93
       + (if TEXT_MODE b then 1 else 0)
       + 6
       + (if AVR b then 4 else 0)
       + 24
       + (if ARM b then 1 else 0)
       + (if \<not> ARM b then 1 else 0)
       + (if HELP_SCREENS b then 2 else 0)
       + (if USER_DATA b then 16 else 0)
       + (if DIAGNOSTIC_PARAMETERS b then 14 else 0)
       + (if DIAGNOSTIC_PARAMETERS b \<and> 1 \<le> MOTORS b then 6 else 0)
       + (if DIAGNOSTIC_PARAMETERS b \<and> 2 \<le> MOTORS b then 6 else 0)
       + (if DIAGNOSTIC_PARAMETERS b \<and> 3 \<le> MOTORS b then 6 else 0)
       + (if DIAGNOSTIC_PARAMETERS b \<and> 4 \<le> MOTORS b then 6 else 0)
       + (if DIAGNOSTIC_PARAMETERS b \<and> 5 \<le> MOTORS b then 6 else 0)
       + (if DIAGNOSTIC_PARAMETERS b \<and> 6 \<le> MOTORS b then 6 else 0)"
  unfolding cfgArray_singles_def length_append length_if_rows length_cfg_rows
  by simp

text \<open>
  The counts the source declares by hand agree with the table: forty status report
  rows, \<open>NV_COUNT_GROUPS\<close> group rows in every build, five uber-group rows.
\<close>

lemma length_cfgArray_status_report: "length cfgArray_status_report = NV_STATUS_REPORT_LEN"
  by (simp add: cfgArray_status_report_def NV_STATUS_REPORT_LEN_def length_cfg_rows)

lemma length_cfgArray_groups: "length (cfgArray_groups b) = NV_COUNT_GROUPS b"
  by (simp add: cfgArray_groups_def NV_COUNT_GROUPS_def FIXED_GROUPS_def MOTOR_GROUP_5_def
      MOTOR_GROUP_6_def USER_DATA_GROUPS_def DIAGNOSTIC_GROUPS_def length_cfg_rows)

lemma length_cfgArray_uber_groups: "length cfgArray_uber_groups = NV_COUNT_UBER_GROUPS"
  by (simp add: cfgArray_uber_groups_def NV_COUNT_UBER_GROUPS_def)

lemma NV_INDEX_MAX_sum:
  "NV_INDEX_MAX b =
     length (cfgArray_singles b) + NV_STATUS_REPORT_LEN + NV_COUNT_GROUPS b + NV_COUNT_UBER_GROUPS"
  by (simp add: NV_INDEX_MAX_def cfgArray_def length_cfgArray_status_report
      length_cfgArray_groups length_cfgArray_uber_groups)

text \<open>The unsigned subtractions of the three boundary macros do not wrap.\<close>

lemma NV_INDEX_no_wrap:
  "NV_COUNT_UBER_GROUPS + NV_COUNT_GROUPS b + NV_STATUS_REPORT_LEN \<le> NV_INDEX_MAX b"
  by (simp add: NV_INDEX_MAX_sum)

lemma NV_INDEX_END_SINGLES_eq: "NV_INDEX_END_SINGLES b = length (cfgArray_singles b)"
  by (simp add: NV_INDEX_END_SINGLES_def NV_INDEX_MAX_sum)

lemma NV_INDEX_START_GROUPS_eq:
  "NV_INDEX_START_GROUPS b = NV_INDEX_END_SINGLES b + NV_STATUS_REPORT_LEN"
  by (simp add: NV_INDEX_START_GROUPS_def NV_INDEX_END_SINGLES_eq NV_INDEX_MAX_sum)

lemma NV_INDEX_START_UBER_GROUPS_eq:
  "NV_INDEX_START_UBER_GROUPS b = NV_INDEX_START_GROUPS b + NV_COUNT_GROUPS b"
  by (simp add: NV_INDEX_START_UBER_GROUPS_def NV_INDEX_START_GROUPS_eq NV_INDEX_END_SINGLES_eq
      NV_INDEX_MAX_sum)

lemma NV_INDEX_MAX_eq:
  "NV_INDEX_MAX b = NV_INDEX_START_UBER_GROUPS b + NV_COUNT_UBER_GROUPS"
  by (simp add: NV_INDEX_START_UBER_GROUPS_eq NV_INDEX_START_GROUPS_eq NV_INDEX_END_SINGLES_eq
      NV_INDEX_MAX_sum)

lemma NV_COUNT_GROUPS_ge: "39 \<le> NV_COUNT_GROUPS b"
  by (simp add: NV_COUNT_GROUPS_def FIXED_GROUPS_def)

text \<open>The boundaries of the example build.\<close>

lemma g2_end_singles: "NV_INDEX_END_SINGLES g2_build = 337"
  by (simp add: NV_INDEX_END_SINGLES_eq length_cfgArray_singles g2_build_def)

lemma g2_start_groups: "NV_INDEX_START_GROUPS g2_build = 377"
  by (simp add: NV_INDEX_START_GROUPS_eq g2_end_singles NV_STATUS_REPORT_LEN_def)

lemma g2_count_groups: "NV_COUNT_GROUPS g2_build = 39"
  by (simp add: NV_COUNT_GROUPS_def FIXED_GROUPS_def MOTOR_GROUP_5_def MOTOR_GROUP_6_def
      USER_DATA_GROUPS_def DIAGNOSTIC_GROUPS_def g2_build_def)

lemma g2_start_uber: "NV_INDEX_START_UBER_GROUPS g2_build = 416"
  by (simp only: NV_INDEX_START_UBER_GROUPS_eq g2_start_groups g2_count_groups)

lemma g2_index_max: "nv_index_max g2_build = 421"
  by (simp add: nv_index_max_def NV_INDEX_MAX_eq g2_start_uber NV_COUNT_UBER_GROUPS_def)

lemma g2_row_338: "cfgArray g2_build ! 338 = ('''', ''se01'')"
proof -
  have "cfgArray g2_build ! 338 = cfgArray_status_report ! 1"
    using g2_end_singles
    by (simp add: cfgArray_def nth_append NV_INDEX_END_SINGLES_eq length_cfgArray_status_report
        NV_STATUS_REPORT_LEN_def)
  then show ?thesis
    by (simp add: cfgArray_status_report_def cfg_rows_685_724_def)
qed

subsection \<open>Classification of indices\<close>

text \<open>
  C2 (as amended). No index satisfies more than one of the three classifications
  \<open>nv_index_is_single\<close>, \<open>nv_index_is_group\<close> and "at or beyond
  \<open>NV_INDEX_START_UBER_GROUPS\<close>". Every index below \<open>NV_INDEX_END_SINGLES\<close> and every
  index from \<open>NV_INDEX_START_GROUPS\<close> on satisfies exactly one. An index strictly
  between \<open>NV_INDEX_END_SINGLES\<close> and \<open>NV_INDEX_START_GROUPS\<close> is in range and
  satisfies none: these are the status report rows after the first, and the two
  boundaries are \<open>NV_STATUS_REPORT_LEN\<close> apart.
\<close>

theorem nv_index_classes:
  "class_count b index \<le> 1
   \<and> (index < NV_INDEX_END_SINGLES b \<or> NV_INDEX_START_GROUPS b \<le> index
        \<longrightarrow> class_count b index = 1)
   \<and> (NV_INDEX_END_SINGLES b < index \<and> index < NV_INDEX_START_GROUPS b
        \<longrightarrow> index < nv_index_max b \<and> class_count b index = 0)
   \<and> NV_INDEX_END_SINGLES b + NV_STATUS_REPORT_LEN = NV_INDEX_START_GROUPS b"
  using NV_COUNT_GROUPS_ge [of b]
  by (auto simp add: class_count_def nv_index_is_single_def nv_index_is_group_def
      nv_index_is_uber_group_def nv_index_max_def NV_INDEX_MAX_eq
      NV_INDEX_START_UBER_GROUPS_eq NV_INDEX_START_GROUPS_eq NV_STATUS_REPORT_LEN_def)

theorem nv_index_classes_witness:
  "(100 < NV_INDEX_END_SINGLES g2_build \<or> NV_INDEX_START_GROUPS g2_build \<le> 100)
   \<and> class_count g2_build 100 = 1
   \<and> NV_INDEX_END_SINGLES g2_build < 338 \<and> 338 < NV_INDEX_START_GROUPS g2_build
   \<and> 338 < nv_index_max g2_build \<and> class_count g2_build 338 = 0
   \<and> (400 < NV_INDEX_END_SINGLES g2_build \<or> NV_INDEX_START_GROUPS g2_build \<le> 400)
   \<and> class_count g2_build 400 = 1"
  using nv_index_classes [of g2_build 100] nv_index_classes [of g2_build 338]
    nv_index_classes [of g2_build 400]
  by (simp add: g2_end_singles g2_start_groups)

text \<open>
  The claim as first stated fails: in the example build index 338 is in range, holds the
  row of \<open>se01\<close>, and is neither a single, nor a group, nor an uber-group.
\<close>

theorem nv_index_classes_counterexample:
  "338 < nv_index_max g2_build \<and> cfgArray g2_build ! 338 = ('''', ''se01'')
   \<and> \<not> nv_index_is_single g2_build 338 \<and> \<not> nv_index_is_group g2_build 338
   \<and> \<not> 338 \<ge> NV_INDEX_START_UBER_GROUPS g2_build"
  by (simp add: g2_index_max g2_row_338 nv_index_is_single_def nv_index_is_group_def
      g2_end_singles g2_start_groups g2_start_uber)

subsection \<open>The effect of the motor count\<close>








section \<open>Unit conversion\<close>

text \<open>
  C4. For every input value, \<open>set_flu\<close> in inches mode writes the value multiplied by
  \<open>MM_PER_INCH\<close> (25.4) both to the cell the table row targets and into the value field
  of the nv object: a finite input \<open>r\<close> leaves the product \<open>r * 25.4\<close>, rounded to a
  \<open>float\<close>, in both places (so the input 1.0 leaves 25.4), and a NaN or an infinity,
  which the multiplication does not change, is written as it is. In millimeters mode it
  writes the value unchanged. In both modes it sets the precision of the object from the
  table, the value type to \<open>TYPE_FLOAT\<close>, and returns \<open>STAT_OK\<close>.
\<close>

theorem set_flu_converts:
  fixes e :: env and nv :: nat and s :: machine
  defines "v \<equiv> nv_value (nv_list s nv)"
    and "item \<equiv> GET_TABLE e (nv_index (nv_list s nv))"
    and "s' \<equiv> snd (set_flu e nv s)"
  shows "fst (set_flu e nv s) = STAT_OK
    \<and> (units_mode s = INCHES \<longrightarrow>
          storage s' (cfg_target item) = fmul (float_round e) v MM_PER_INCH
        \<and> nv_value (nv_list s' nv) = fmul (float_round e) v MM_PER_INCH)
    \<and> (\<forall>r. units_mode s = INCHES \<and> v = Finite r \<longrightarrow>
          storage s' (cfg_target item) = float_round e (r * 25.4)
        \<and> nv_value (nv_list s' nv) = float_round e (r * 25.4))
    \<and> (units_mode s = INCHES \<and> (isnan v \<or> isinf v) \<longrightarrow>
          storage s' (cfg_target item) = v \<and> nv_value (nv_list s' nv) = v)
    \<and> (units_mode s = INCHES \<and> v = Finite 1 \<longrightarrow>
          storage s' (cfg_target item) = float_round e 25.4
        \<and> nv_value (nv_list s' nv) = float_round e 25.4)
    \<and> (units_mode s = MILLIMETERS \<longrightarrow>
          storage s' (cfg_target item) = v \<and> nv_value (nv_list s' nv) = v)
    \<and> nv_precision (nv_list s' nv) = cfg_precision item
    \<and> nv_valuetype (nv_list s' nv) = TYPE_FLOAT"
  by (auto simp add: v_def item_def s'_def set_flu_def Let_def fmul_def MM_PER_INCH_def
      isnan_def isinf_def)

theorem set_flu_converts_witness:
  "units_mode example_machine = INCHES \<and> nv_value (nv_list example_machine 1) = Finite 1
   \<and> storage (snd (set_flu example_env 1 example_machine)) 7 = Finite 25.4
   \<and> nv_value (nv_list (snd (set_flu example_env 1 example_machine)) 1) = Finite 25.4
   \<and> units_mode (with_value (Finite 3) example_machine) = INCHES
   \<and> nv_value (nv_list (with_value (Finite 3) example_machine) 1) = Finite 3
   \<and> storage (snd (set_flu example_env 1 (with_value (Finite 3) example_machine))) 7 = Finite 76.2
   \<and> nv_value (nv_list (snd (set_flu example_env 1 (with_value (Finite 3) example_machine))) 1)
       = Finite 76.2
   \<and> isinf (nv_value (nv_list (with_value PlusInf example_machine) 1))
   \<and> storage (snd (set_flu example_env 1 (with_value PlusInf example_machine))) 7 = PlusInf
   \<and> units_mode (example_machine\<lparr>units_mode := MILLIMETERS\<rparr>) = MILLIMETERS
   \<and> storage (snd (set_flu example_env 1 (example_machine\<lparr>units_mode := MILLIMETERS\<rparr>))) 7 = Finite 1
   \<and> nv_value (nv_list (snd (set_flu example_env 1 (example_machine\<lparr>units_mode := MILLIMETERS\<rparr>))) 1) = Finite 1"
  using set_flu_converts [of example_env 1 example_machine]
    set_flu_converts [of example_env 1 "with_value (Finite 3) example_machine"]
    set_flu_converts [of example_env 1 "with_value PlusInf example_machine"]
    set_flu_converts [of example_env 1 "example_machine\<lparr>units_mode := MILLIMETERS\<rparr>"]
  by (simp add: example_env_def example_machine_def with_value_def fmul_def MM_PER_INCH_def
      isnan_def isinf_def)

text \<open>
  C10. \<open>set_flu\<close> validates nothing. Whatever the input value and the units mode, it
  returns \<open>STAT_OK\<close>, never a failure status, and the targeted cell ends up holding
  the (possibly converted) value of the object. A NaN or an infinity is written as it
  is; a negative number is written after the same conversion as any other.
\<close>

theorem set_flu_never_fails:
  fixes e :: env and nv :: nat and s :: machine
  defines "v \<equiv> nv_value (nv_list s nv)"
    and "item \<equiv> GET_TABLE e (nv_index (nv_list s nv))"
    and "s' \<equiv> snd (set_flu e nv s)"
  shows "fst (set_flu e nv s) = STAT_OK
    \<and> fst (set_flu e nv s) \<noteq> STAT_INPUT_VALUE_UNSUPPORTED
    \<and> storage s' (cfg_target item) = nv_value (nv_list s' nv)
    \<and> nv_value (nv_list s' nv) =
        (if units_mode s = INCHES then fmul (float_round e) v MM_PER_INCH else v)
    \<and> (isnan v \<or> isinf v \<longrightarrow> storage s' (cfg_target item) = v)
    \<and> (\<forall>r. v = Finite r \<and> r < 0 \<longrightarrow>
          storage s' (cfg_target item) =
            (if units_mode s = INCHES then float_round e (r * 25.4) else Finite r))"
  by (auto simp add: v_def item_def s'_def set_flu_def Let_def fmul_def MM_PER_INCH_def
      isnan_def isinf_def)

theorem set_flu_never_fails_witness:
  "isnan NaN \<and> storage (snd (set_flu example_env 1 (with_value NaN example_machine))) 7 = NaN
   \<and> isinf MinusInf
   \<and> storage (snd (set_flu example_env 1 (with_value MinusInf example_machine))) 7 = MinusInf
   \<and> fst (set_flu example_env 1 (with_value MinusInf example_machine)) = STAT_OK
   \<and> (- 2 :: real) < 0
   \<and> storage (snd (set_flu example_env 1 (with_value (Finite (- 2)) example_machine))) 7 = Finite (- 50.8)"
  using set_flu_never_fails [of example_env 1 "with_value NaN example_machine"]
    set_flu_never_fails [of example_env 1 "with_value MinusInf example_machine"]
    set_flu_never_fails [of example_env 1 "with_value (Finite (- 2)) example_machine"]
  by (simp add: example_env_def example_machine_def with_value_def isnan_def isinf_def
      fmul_def MM_PER_INCH_def)

text \<open>
  C6. When the value of the object is NaN or infinite, \<open>preprocess_float\<close> returns
  with the value, and the whole state, unchanged, whatever the units mode and whether or
  not the row carries \<open>F_CONVERT\<close>.
\<close>

theorem preprocess_float_illegal_values:
  assumes "isnan (nv_value (nv_list s nv)) \<or> isinf (nv_value (nv_list s nv))"
  shows "preprocess_float e nv s = s
    \<and> nv_value (nv_list (preprocess_float e nv s) nv) = nv_value (nv_list s nv)"
  using assms by (simp add: preprocess_float_def Let_def)

theorem preprocess_float_illegal_values_witness:
  "isnan (nv_value (nv_list (with_value NaN example_machine) 1))
   \<and> units_mode (with_value NaN example_machine) = INCHES
   \<and> and (cfg_flags (GET_TABLE example_env 7)) (F_CONVERT example_env) \<noteq> 0
   \<and> nv_value (nv_list (preprocess_float example_env 1 (with_value NaN example_machine)) 1) = NaN
   \<and> isinf (nv_value (nv_list (with_value PlusInf example_machine) 1))
   \<and> nv_value (nv_list (preprocess_float example_env 1 (with_value PlusInf example_machine)) 1)
       = PlusInf"
  using preprocess_float_illegal_values [of "with_value NaN example_machine" 1 example_env]
    preprocess_float_illegal_values [of "with_value PlusInf example_machine" 1 example_env]
  by (simp add: example_env_def example_machine_def with_value_def isnan_def isinf_def)

text \<open>
  For a legal value the conversion does happen: 25.4 millimeters are shown as 1 inch.
\<close>

lemma preprocess_float_converts_example:
  "nv_value (nv_list (preprocess_float example_env 1 (with_value (Finite 25.4) example_machine)) 1)
     = Finite 1"
  by (simp add: preprocess_float_def example_env_def example_machine_def with_value_def
      isnan_def isinf_def fmul_def INCHES_PER_MM_def Let_def)

text \<open>
  C7. \<open>preprocess_float\<close> never writes to backing storage: the cells are the same after
  the call as before. The only part of the state that can differ is the value field of
  the nv object it was given.
\<close>

theorem preprocess_float_frame:
  "storage (preprocess_float e nv s) = storage s
   \<and> preprocess_float e nv s =
       s\<lparr>nv_list := (nv_list s)
           (nv := (nv_list s nv)\<lparr>nv_value := nv_value (nv_list (preprocess_float e nv s) nv)\<rparr>)\<rparr>"
  by (simp add: preprocess_float_def Let_def)

section \<open>The group prefix rule\<close>

text \<open>
  C8. \<open>nv_group_is_prefixed\<close> returns false for the group names \<open>sr\<close> and \<open>sys\<close>
  and true for every other group name.
\<close>

theorem nv_group_is_prefixed_exceptions:
  "\<not> nv_group_is_prefixed ''sr'' \<and> \<not> nv_group_is_prefixed ''sys''
   \<and> nv_group_is_prefixed grp = (grp \<noteq> ''sr'' \<and> grp \<noteq> ''sys'')"
  by (auto simp add: nv_group_is_prefixed_def)

section \<open>Setting the baud rate\<close>

lemma uint8_of_float_7: "uint8_of_float oor (Finite 7) = 7"
  by (simp add: uint8_of_float_def trunc_toward_zero_def)

lemma uint8_of_float_half: "uint8_of_float oor (Finite (1 / 2)) = 0"
  by (simp add: uint8_of_float_def trunc_toward_zero_def)

text \<open>
  C9. When the byte that the value converts to is below 1 or above 6, \<open>set_baud\<close>
  returns \<open>STAT_INPUT_VALUE_UNSUPPORTED\<close>, queues the warning message, and changes
  nothing else: \<open>xio.usb_baud_rate\<close> and \<open>xio.usb_baud_flag\<close> keep their values.
\<close>

theorem set_baud_unsupported:
  assumes "uint8_of_float (cast_out_of_range e) (nv_value (nv_list s nv)) < 1
           \<or> 6 < uint8_of_float (cast_out_of_range e) (nv_value (nv_list s nv))"
  shows "set_baud e nv s =
           (STAT_INPUT_VALUE_UNSUPPORTED,
            s\<lparr>calls := calls s @
               [Nv_add_conditional_message ''*** WARNING *** Unsupported baud rate specified'']\<rparr>)
    \<and> xio_usb_baud_rate (snd (set_baud e nv s)) = xio_usb_baud_rate s
    \<and> xio_usb_baud_flag (snd (set_baud e nv s)) = xio_usb_baud_flag s"
  using assms by (simp add: set_baud_def Let_def add_call_def)

theorem set_baud_unsupported_witness:
  "6 < uint8_of_float (cast_out_of_range example_env)
         (nv_value (nv_list (with_value (Finite 7) example_machine) 1))
   \<and> fst (set_baud example_env 1 (with_value (Finite 7) example_machine)) = STAT_INPUT_VALUE_UNSUPPORTED
   \<and> calls (snd (set_baud example_env 1 (with_value (Finite 7) example_machine))) =
       [Nv_add_conditional_message ''*** WARNING *** Unsupported baud rate specified'']
   \<and> xio_usb_baud_rate (snd (set_baud example_env 1 (with_value (Finite 7) example_machine))) = 5
   \<and> xio_usb_baud_flag (snd (set_baud example_env 1 (with_value (Finite 7) example_machine))) = False
   \<and> uint8_of_float (cast_out_of_range example_env)
         (nv_value (nv_list (with_value (Finite (1 / 2)) example_machine) 1)) < 1
   \<and> fst (set_baud example_env 1 (with_value (Finite (1 / 2)) example_machine)) = STAT_INPUT_VALUE_UNSUPPORTED"
  using set_baud_unsupported [of example_env "with_value (Finite 7) example_machine" 1]
    set_baud_unsupported [of example_env "with_value (Finite (1 / 2)) example_machine" 1]
  by (simp add: example_machine_def with_value_def uint8_of_float_7 uint8_of_float_half)

text \<open>A supported value, for comparison: 3 selects 38400 baud and raises the flag.\<close>

lemma set_baud_supported_example:
  "fst (set_baud example_env 1 (with_value (Finite 3) example_machine)) = STAT_OK
   \<and> xio_usb_baud_rate (snd (set_baud example_env 1 (with_value (Finite 3) example_machine))) = 3
   \<and> xio_usb_baud_flag (snd (set_baud example_env 1 (with_value (Finite 3) example_machine)))
   \<and> calls (snd (set_baud example_env 1 (with_value (Finite 3) example_machine))) =
       [Nv_add_conditional_message ''*** NOTICE *** Resetting baud rate to 38400'']"
  by (simp add: set_baud_def Let_def add_call_def example_machine_def with_value_def
      uint8_of_float_def trunc_toward_zero_def msg_baud_def)

section \<open>Group lists and uber-groups\<close>

lemma calls_group_list_step:
  "calls (group_list_step e t s) = calls s @ listed_calls e t"
  by (simp add: group_list_step_def listed_calls_def add_call_def set_token_def Let_def)

lemma run_steps_snoc: "run_steps e (ts @ [t]) s = group_list_step e t (run_steps e ts s)"
  by (simp add: run_steps_def)

lemma calls_run_steps:
  "calls (run_steps e ts s) = calls s @ concat (map (listed_calls e) ts)"
  by (induction ts rule: rev_induct) (simp_all add: run_steps_def calls_group_list_step)

text \<open>
  A counter that has made \<open>k\<close> passes holds \<open>k\<close> as long as \<open>k\<close> is below 256.
\<close>

lemma unat_counter: "k < 256 \<Longrightarrow> unat (of_nat k :: 8 word) = k"
  by (simp add: unat_of_nat)

lemma counter_Suc: "(of_nat k :: 8 word) + 1 = of_nat (Suc k)"
  by simp

text \<open>
  Passes \<open>i\<close> to \<open>k\<close> of the loop over elements that are not empty, up to the point
  where the counter would wrap.
\<close>

lemma group_list_loop_run:
  assumes "i \<le> k" "k \<le> NV_MAX_OBJECTS e" "k \<le> length list" "k \<le> 256"
    and "\<forall>t \<in> set (drop i (take k list)). t \<noteq> []"
  shows "group_list_loop e list (of_nat i) s =
         group_list_loop e list (of_nat k) (run_steps e (drop i (take k list)) s)"
  using assms
proof (induction k)
  case 0
  then show ?case by (simp add: run_steps_def)
next
  case (Suc k)
  show ?case
  proof (cases "i = Suc k")
    case True
    then show ?thesis by (simp add: run_steps_def)
  next
    case False
    with Suc.prems have ik: "i \<le> k" and k: "k < NV_MAX_OBJECTS e" "k < length list" "k < 256"
      by simp_all
    have split: "drop i (take (Suc k) list) = drop i (take k list) @ [list ! k]"
      using ik k by (simp add: take_Suc_conv_app_nth)
    have nonempty: "list ! k \<noteq> []" and before: "\<forall>t \<in> set (drop i (take k list)). t \<noteq> []"
      using Suc.prems(5) by (simp_all add: split)
    have "group_list_loop e list (of_nat i) s =
        group_list_loop e list (of_nat k) (run_steps e (drop i (take k list)) s)"
      using Suc.IH ik k before by simp
    also have "\<dots> = group_list_loop e list (of_nat k + 1)
        (group_list_step e (list ! k) (run_steps e (drop i (take k list)) s))"
      using k nonempty by (subst group_list_loop.simps) (simp add: unat_counter)
    finally show ?thesis
      by (simp only: split run_steps_snoc counter_Suc)
  qed
qed

lemma group_list_loop_sentinel:
  assumes "k < NV_MAX_OBJECTS e" "k < length list" "list ! k = []" "k < 256"
  shows "group_list_loop e list (of_nat k) s = Some (STAT_COMPLETE, s)"
  using assms by (subst group_list_loop.simps) (simp add: unat_counter)


lemma group_list_loop_overrun:
  assumes "length list < NV_MAX_OBJECTS e" "length list < 256"
  shows "group_list_loop e list (of_nat (length list)) s = None"
  using assms by (subst group_list_loop.simps) (simp add: unat_counter)

text \<open>
  With \<open>NV_MAX_OBJECTS\<close> at 256 or more and no empty string among the first 256
  elements, the 8-bit counter never reaches the bound: the loop returns nothing,
  whatever the counter and the state it starts from.
\<close>

lemma group_list_loop_wraps:
  assumes "256 \<le> NV_MAX_OBJECTS e" "256 \<le> length list"
    and "\<forall>j < 256. list ! j \<noteq> []"
  shows "group_list_loop e list i s = None"
proof -
  have "group_list_loop e list i s \<noteq> Some y" for y
  proof
    assume ret: "group_list_loop e list i s = Some y"
    have "\<not> (256 \<le> NV_MAX_OBJECTS e \<and> 256 \<le> length list \<and> (\<forall>j < 256. list ! j \<noteq> []))"
    proof (rule group_list_loop.raw_induct
        [where P = "\<lambda>e list i s y.
           \<not> (256 \<le> NV_MAX_OBJECTS e \<and> 256 \<le> length list \<and> (\<forall>j < 256. list ! j \<noteq> []))",
         OF _ ret])
      fix loop :: "env \<Rightarrow> string list \<Rightarrow> 8 word \<Rightarrow> machine \<Rightarrow> (stat_t \<times> machine) option"
      fix e list i s y
      assume IH: "\<And>e list i s y. loop e list i s = Some y \<Longrightarrow>
          \<not> (256 \<le> NV_MAX_OBJECTS e \<and> 256 \<le> length list \<and> (\<forall>j < 256. list ! j \<noteq> []))"
      assume body: "(if unat i < NV_MAX_OBJECTS e
          then if length list \<le> unat i then None
               else if list ! unat i = [] then Some (STAT_COMPLETE, s)
                    else loop e list (i + 1) (group_list_step e (list ! unat i) s)
          else Some (STAT_COMPLETE, s)) = Some y"
      show "\<not> (256 \<le> NV_MAX_OBJECTS e \<and> 256 \<le> length list \<and> (\<forall>j < 256. list ! j \<noteq> []))"
      proof
        assume inv: "256 \<le> NV_MAX_OBJECTS e \<and> 256 \<le> length list \<and> (\<forall>j < 256. list ! j \<noteq> [])"
        have small: "unat i < 256"
          using unsigned_less [of i, where ?'a = nat] by simp
        with inv have "unat i < NV_MAX_OBJECTS e" "\<not> length list \<le> unat i" "list ! unat i \<noteq> []"
          by simp_all
        with body have "loop e list (i + 1) (group_list_step e (list ! unat i) s) = Some y"
          by simp
        from IH [OF this] inv show False
          by simp
      qed
    qed
    with assms show False
      by simp
  qed
  then have "\<forall>y. group_list_loop e list i s \<noteq> Some y"
    by blast
  then show ?thesis
    by (simp only: not_Some_eq)
qed

text \<open>
  The ways the loop ends when it is entered at the first element: at the sentinel after
  \<open>k\<close> passes, at the maximum object count, beyond the end of a list that has no
  sentinel, or not at all.
\<close>

lemma do_group_list_sentinel:
  assumes "k < NV_MAX_OBJECTS e" "k < length list" "list ! k = []" "k < 256"
    and "\<forall>t \<in> set (take k list). t \<noteq> []"
  shows "do_group_list e nv list s = Some (STAT_COMPLETE, run_steps e (take k list) s)"
  using group_list_loop_run [of 0 k e list s] assms
  by (simp add: do_group_list_def group_list_loop_sentinel)


lemma do_group_list_overrun:
  assumes "length list < NV_MAX_OBJECTS e" "length list < 256" "\<forall>t \<in> set list. t \<noteq> []"
  shows "do_group_list e nv list s = None"
  using group_list_loop_run [of 0 "length list" e list s] assms
  by (simp add: do_group_list_def group_list_loop_overrun)

lemma do_group_list_never_returns:
  assumes "256 \<le> NV_MAX_OBJECTS e" "256 \<le> length list"
    and "\<forall>j < 256. list ! j \<noteq> []"
  shows "do_group_list e nv list s = None"
  using assms by (simp add: do_group_list_def group_list_loop_wraps)

lemma do_axes_complete:
  assumes "6 < NV_MAX_OBJECTS e"
  shows "do_axes e nv s = Some (STAT_COMPLETE, run_steps e [''x'', ''y'', ''z'', ''a'', ''b'', ''c''] s)"
  using do_group_list_sentinel [of 6 e axes_list nv s] assms
  by (simp add: do_axes_def axes_list_def)

lemma do_offsets_complete:
  assumes "9 < NV_MAX_OBJECTS e"
  shows "do_offsets e nv s = Some (STAT_COMPLETE,
    run_steps e [''g54'', ''g55'', ''g56'', ''g57'', ''g58'', ''g59'', ''g92'', ''g28'', ''g30''] s)"
  using do_group_list_sentinel [of 9 e offsets_list nv s] assms
  by (simp add: do_offsets_def offsets_list_def)

lemma do_motors_complete:
  assumes "2 \<le> MOTORS b" "MOTORS b \<le> 6" "6 < NV_MAX_OBJECTS e"
  shows "do_motors b e nv s = Some (STAT_COMPLETE,
    run_steps e (take (MOTORS b) [''1'', ''2'', ''3'', ''4'', ''5'', ''6'']) s)"
proof -
  from assms(1,2) consider "MOTORS b = 2" | "MOTORS b = 3" | "MOTORS b = 4" | "MOTORS b = 5" | "MOTORS b = 6"
    by arith
  then show ?thesis
  proof cases
    case 1
    then show ?thesis
      using do_group_list_sentinel [of 2 e "[''1'', ''2'', '''']" nv s] assms(3)
      by (simp add: do_motors_def motors_list_def)
  next
    case 2
    then show ?thesis
      using do_group_list_sentinel [of 3 e "[''1'', ''2'', ''3'', '''']" nv s] assms(3)
      by (simp add: do_motors_def motors_list_def)
  next
    case 3
    then show ?thesis
      using do_group_list_sentinel [of 4 e "[''1'', ''2'', ''3'', ''4'', '''']" nv s] assms(3)
      by (simp add: do_motors_def motors_list_def)
  next
    case 4
    then show ?thesis
      using do_group_list_sentinel [of 5 e "[''1'', ''2'', ''3'', ''4'', ''5'', '''']" nv s] assms(3)
      by (simp add: do_motors_def motors_list_def)
  next
    case 5
    then show ?thesis
      using do_group_list_sentinel [of 6 e "[''1'', ''2'', ''3'', ''4'', ''5'', ''6'', '''']" nv s] assms(3)
      by (simp add: do_motors_def motors_list_def)
  qed
qed

lemma calls_print_group: "calls (print_group nv t s) = calls s @ direct_calls nv t"
  by (simp add: print_group_def direct_calls_def add_call_def set_token_def Let_def)

lemma fetched_append: "fetched (xs @ ys) = fetched xs @ fetched ys"
  by (simp add: fetched_def)

lemma fetched_direct_calls: "fetched (direct_calls nv t) = [t]"
  by (simp add: fetched_def direct_calls_def)

lemma fetched_listed_one: "fetched (listed_calls e t) = [take TOKEN_LEN t]"
  by (simp add: fetched_def listed_calls_def)

lemma fetched_listed_calls: "fetched (concat (map (listed_calls e) ts)) = map (take TOKEN_LEN) ts"
  by (induction ts) (simp_all add: fetched_append fetched_listed_one, simp add: fetched_def)

lemma motor_tokens_cases:
  assumes "2 \<le> m" "m \<le> (6::nat)"
  shows "take m [''1'', ''2'', ''3'', ''4'', ''5'', ''6''] \<in>
    {[''1'', ''2''], [''1'', ''2'', ''3''], [''1'', ''2'', ''3'', ''4''],
     [''1'', ''2'', ''3'', ''4'', ''5''], [''1'', ''2'', ''3'', ''4'', ''5'', ''6'']}"
proof -
  from assms consider "m = 2" | "m = 3" | "m = 4" | "m = 5" | "m = 6"
    by arith
  then show ?thesis by cases simp_all
qed



text \<open>
  C1 (as amended). In a build with two to six motors and with \<open>NV_MAX_OBJECTS\<close>
  above nine, \<open>_do_all\<close> prints the group \<open>sys\<close> directly, then runs the motors
  handler and the axes handler, then prints the group \<open>p1\<close> directly, and last runs
  the offsets handler, whose status \<open>STAT_COMPLETE\<close> it returns. The groups fetched
  are \<open>sys\<close>, the motors, the six axes, \<open>p1\<close> and the nine offset groups, in
  this order, and none of them twice.
\<close>

theorem do_all_sequence:
  fixes b :: build and e :: env and nv :: nat and s :: machine
  defines "motors \<equiv> take (MOTORS b) [''1'', ''2'', ''3'', ''4'', ''5'', ''6'']"
    and "axes \<equiv> [''x'', ''y'', ''z'', ''a'', ''b'', ''c'']"
    and "offsets \<equiv> [''g54'', ''g55'', ''g56'', ''g57'', ''g58'', ''g59'', ''g92'', ''g28'', ''g30'']"
  assumes "2 \<le> MOTORS b" "MOTORS b \<le> 6" "9 < NV_MAX_OBJECTS e"
  shows "status_of (do_all b e nv s) = Some STAT_COMPLETE
    \<and> calls_of (do_all b e nv s) = Some (calls s
        @ direct_calls nv ''sys''
        @ concat (map (listed_calls e) motors)
        @ concat (map (listed_calls e) axes)
        @ direct_calls nv ''p1''
        @ concat (map (listed_calls e) offsets))
    \<and> fetched (direct_calls nv ''sys''
        @ concat (map (listed_calls e) motors)
        @ concat (map (listed_calls e) axes)
        @ direct_calls nv ''p1''
        @ concat (map (listed_calls e) offsets))
      = [''sys''] @ motors @ axes @ [''p1''] @ offsets
    \<and> distinct ([''sys''] @ motors @ axes @ [''p1''] @ offsets)"
proof -
  have big: "6 < NV_MAX_OBJECTS e"
    using assms by simp
  have run: "do_all b e nv s = Some (STAT_COMPLETE,
      run_steps e offsets (print_group nv ''p1''
        (run_steps e axes (run_steps e motors (print_group nv ''sys'' s)))))"
    using assms(4-6) big
    by (simp add: do_all_def do_motors_complete do_axes_complete do_offsets_complete
        motors_def axes_def offsets_def)
  have tokens: "map (take TOKEN_LEN) motors = motors"
    using motor_tokens_cases [OF assms(4,5)] by (auto simp add: motors_def TOKEN_LEN_def)
  have "distinct ([''sys''] @ motors @ axes @ [''p1''] @ offsets)"
    using motor_tokens_cases [OF assms(4,5)] by (auto simp add: motors_def axes_def offsets_def)
  moreover have "fetched (direct_calls nv ''sys''
        @ concat (map (listed_calls e) motors)
        @ concat (map (listed_calls e) axes)
        @ direct_calls nv ''p1''
        @ concat (map (listed_calls e) offsets))
      = [''sys''] @ motors @ axes @ [''p1''] @ offsets"
    by (simp add: fetched_append fetched_direct_calls fetched_listed_calls tokens)
      (simp add: axes_def offsets_def TOKEN_LEN_def)
  ultimately show ?thesis
    by (simp add: run status_of_def calls_of_def calls_run_steps calls_print_group)
qed

theorem do_all_sequence_witness:
  "2 \<le> MOTORS g2_build \<and> MOTORS g2_build \<le> 6 \<and> 9 < NV_MAX_OBJECTS example_env
   \<and> status_of (do_all g2_build example_env 1 example_machine) = Some STAT_COMPLETE
   \<and> map_option fetched (calls_of (do_all g2_build example_env 1 example_machine)) =
       Some [''sys'', ''1'', ''2'', ''3'', ''4'', ''x'', ''y'', ''z'', ''a'', ''b'', ''c'', ''p1'',
             ''g54'', ''g55'', ''g56'', ''g57'', ''g58'', ''g59'', ''g92'', ''g28'', ''g30'']"
proof -
  have hyps: "2 \<le> MOTORS g2_build" "MOTORS g2_build \<le> 6" "9 < NV_MAX_OBJECTS example_env"
    by (simp_all add: g2_build_def example_env_def)
  have empty: "calls example_machine = []"
    by (simp add: example_machine_def)
  show ?thesis
    using do_all_sequence [OF hyps, of 1 example_machine] hyps
    by (simp add: empty g2_build_def)
qed

text \<open>
  The claim as first stated, with \<open>p1\<close> printed right after \<open>sys\<close> and before
  the motors, fails: in the example build \<open>p1\<close> is fetched twelfth, after the axes.
\<close>

theorem do_all_sequence_counterexample:
  "map_option fetched (calls_of (do_all g2_build example_env 1 example_machine)) =
     Some [''sys'', ''1'', ''2'', ''3'', ''4'', ''x'', ''y'', ''z'', ''a'', ''b'', ''c'', ''p1'',
           ''g54'', ''g55'', ''g56'', ''g57'', ''g58'', ''g59'', ''g92'', ''g28'', ''g30'']
   \<and> map_option fetched (calls_of (do_all g2_build example_env 1 example_machine)) \<noteq>
     Some ([''sys'', ''p1''] @ [''1'', ''2'', ''3'', ''4''] @ [''x'', ''y'', ''z'', ''a'', ''b'', ''c'']
           @ [''g54'', ''g55'', ''g56'', ''g57'', ''g58'', ''g59'', ''g92'', ''g28'', ''g30''])"
proof -
  have big: "9 < NV_MAX_OBJECTS example_env" "6 < NV_MAX_OBJECTS example_env"
    by (simp_all add: example_env_def)
  have m: "2 \<le> MOTORS g2_build" "MOTORS g2_build \<le> 6"
    by (simp_all add: g2_build_def)
  have "do_all g2_build example_env 1 example_machine = Some (STAT_COMPLETE,
      run_steps example_env [''g54'', ''g55'', ''g56'', ''g57'', ''g58'', ''g59'', ''g92'', ''g28'', ''g30'']
       (print_group 1 ''p1''
        (run_steps example_env [''x'', ''y'', ''z'', ''a'', ''b'', ''c'']
          (run_steps example_env [''1'', ''2'', ''3'', ''4''] (print_group 1 ''sys'' example_machine)))))"
    using big m
    by (simp add: do_all_def do_motors_complete do_axes_complete do_offsets_complete)
      (simp add: g2_build_def)
  moreover have "calls example_machine = []"
    by (simp add: example_machine_def)
  ultimately show ?thesis
    by (simp add: calls_of_def calls_run_steps calls_print_group fetched_append
        fetched_direct_calls fetched_listed_one TOKEN_LEN_def)
qed

end
